theory Spec2Isabelle
  imports Complex_Main "HOL-Library.Monad_Syntax"
begin

section \<open>Data model\<close>

subsection \<open>Floating-point values\<close>

text \<open>
  A value of the C++ types \<^verbatim>\<open>float\<close> (IEEE-754 binary32) or \<^verbatim>\<open>double\<close> (binary64): the
  real number it denotes, an infinity or a NaN. The precision is not part of the value;
  every operation below rounds its exact result to the precision of its C++ type. The
  sign of zero is not modelled.
\<close>

datatype float = Fin real | PInf | NInf | NaN

text \<open>The binary exponent of a real other than 0: \<open>2^e \<le> |r| < 2^(e+1)\<close>.\<close>

definition bexp :: "real \<Rightarrow> int" where
  "bexp r = \<lfloor>log 2 \<bar>r\<bar>\<rfloor>"

text \<open>The nearest integer, the even one of the two at a tie.\<close>

definition round_even :: "real \<Rightarrow> int" where
  "round_even r =
     (let f = \<lfloor>r\<rfloor> in
      if r - of_int f < 1 / 2 then f
      else if 1 / 2 < r - of_int f then f + 1
      else if even f then f else f + 1)"

text \<open>
  IEEE-754 rounding to nearest, ties to even, into the binary format with \<open>p\<close>
  significant bits, least quantum \<open>2^qmin\<close> and finite values below \<open>2^emax\<close>: the real
  is rounded to a multiple of the quantum of its binade (of \<open>2^qmin\<close> in the subnormal
  range), and a result that reaches \<open>2^emax\<close> overflows to the infinity of its sign.
\<close>

definition round_to :: "int \<Rightarrow> int \<Rightarrow> int \<Rightarrow> real \<Rightarrow> float" where
  "round_to p qmin emax r =
     (if r = 0 then Fin 0
      else
        let q = max (bexp r - (p - 1)) qmin;
            v = of_int (round_even (r / 2 powr of_int q)) * 2 powr of_int q
        in if 2 powr of_int emax \<le> \<bar>v\<bar> then (if 0 < r then PInf else NInf) else Fin v)"

text \<open>Rounding to \<^verbatim>\<open>float\<close> (24 bits, quantum \<open>2^-149\<close>) and to \<^verbatim>\<open>double\<close> (53 bits, \<open>2^-1074\<close>).\<close>

definition round_float :: "real \<Rightarrow> float" where
  "round_float = round_to 24 (- 149) 128"

definition round_double :: "real \<Rightarrow> float" where
  "round_double = round_to 53 (- 1074) 1024"

text \<open>
  The reals that a format holds exactly: \<open>m * 2^e\<close> with \<open>|m| < 2^p\<close> and the exponent
  of the quantum in the range of the format.
\<close>

definition representable :: "int \<Rightarrow> int \<Rightarrow> int \<Rightarrow> real \<Rightarrow> bool" where
  "representable p qmin emax r =
     (\<exists>m e. \<bar>m\<bar> < 2 ^ nat p \<and> qmin \<le> e \<and> e \<le> emax - p \<and> r = of_int m * 2 powr of_int e)"

definition float32 :: "real \<Rightarrow> bool" where
  "float32 = representable 24 (- 149) 128"

definition float64 :: "real \<Rightarrow> bool" where
  "float64 = representable 53 (- 1074) 1024"

text \<open>
  \<^verbatim>\<open>a + b\<close> on two \<^verbatim>\<open>float\<close> operands: the sum is computed in \<^verbatim>\<open>float\<close> and rounded to it.
\<close>

fun float_add :: "float \<Rightarrow> float \<Rightarrow> float" where
  "float_add NaN _ = NaN"
| "float_add _ NaN = NaN"
| "float_add PInf NInf = NaN"
| "float_add NInf PInf = NaN"
| "float_add PInf _ = PInf"
| "float_add _ PInf = PInf"
| "float_add NInf _ = NInf"
| "float_add _ NInf = NInf"
| "float_add (Fin u) (Fin v) = round_float (u + v)"

text \<open>\<^verbatim>\<open>a * b\<close> on two \<^verbatim>\<open>double\<close> operands.\<close>

fun double_mul :: "float \<Rightarrow> float \<Rightarrow> float" where
  "double_mul NaN _ = NaN"
| "double_mul _ NaN = NaN"
| "double_mul (Fin u) (Fin v) = round_double (u * v)"
| "double_mul (Fin u) PInf = (if u = 0 then NaN else if 0 < u then PInf else NInf)"
| "double_mul (Fin u) NInf = (if u = 0 then NaN else if 0 < u then NInf else PInf)"
| "double_mul PInf (Fin v) = (if v = 0 then NaN else if 0 < v then PInf else NInf)"
| "double_mul NInf (Fin v) = (if v = 0 then NaN else if 0 < v then NInf else PInf)"
| "double_mul PInf PInf = PInf"
| "double_mul NInf NInf = PInf"
| "double_mul PInf NInf = NInf"
| "double_mul NInf PInf = NInf"

text \<open>
  \<^verbatim>\<open>a / b\<close> on two \<^verbatim>\<open>double\<close> operands. A zero divisor is the positive zero: the two
  divisors of the program are the literal \<^verbatim>\<open>2.0\<close> and an \<^verbatim>\<open>int\<close> converted to \<^verbatim>\<open>double\<close>.
  Dividing a finite value by zero does not trap; it gives an infinity, or NaN for
  \<^verbatim>\<open>0.0 / 0\<close>.
\<close>

fun double_div :: "float \<Rightarrow> float \<Rightarrow> float" where
  "double_div NaN _ = NaN"
| "double_div _ NaN = NaN"
| "double_div (Fin u) (Fin v) =
     (if v \<noteq> 0 then round_double (u / v)
      else if 0 < u then PInf else if u < 0 then NInf else NaN)"
| "double_div (Fin u) _ = Fin 0"
| "double_div PInf (Fin v) = (if 0 \<le> v then PInf else NInf)"
| "double_div NInf (Fin v) = (if 0 \<le> v then NInf else PInf)"
| "double_div _ _ = NaN"

text \<open>
  The conversion of a \<^verbatim>\<open>double\<close> to \<^verbatim>\<open>float\<close>, as in an assignment to a \<^verbatim>\<open>float\<close> field
  or in passing a \<^verbatim>\<open>double\<close> to \<^verbatim>\<open>push_back\<close>. The conversion of a \<^verbatim>\<open>float\<close> to \<^verbatim>\<open>double\<close>
  is exact and leaves the value as it is.
\<close>

fun to_float :: "float \<Rightarrow> float" where
  "to_float (Fin r) = round_float r"
| "to_float v = v"

text \<open>The conversion of an \<^verbatim>\<open>int\<close> to \<^verbatim>\<open>double\<close>.\<close>

definition double_of_int :: "int \<Rightarrow> float" where
  "double_of_int i = round_double (of_int i)"

subsection \<open>Integers\<close>

text \<open>
  The C++ type \<^verbatim>\<open>int\<close>, 32 bits wide: an integer from \<open>-2^31\<close> to \<^verbatim>\<open>INT_MAX\<close>. An
  addition whose sum leaves that range is a signed overflow and has no defined result.
\<close>

definition INT_MAX :: int where
  "INT_MAX = 2147483647"

definition int_add :: "int \<Rightarrow> int \<Rightarrow> int option" where
  "int_add u v = (if - INT_MAX - 1 \<le> u + v \<and> u + v \<le> INT_MAX then Some (u + v) else None)"

subsection \<open>Points\<close>

text \<open>
  Modelled from the spec: the header \<^verbatim>\<open>mytypes.h\<close> that declares \<^verbatim>\<open>point_t\<close> is not among
  the sources. A Point is a triple of coordinates (x, y, z); the program initialises
  one with three \<^verbatim>\<open>float\<close> literals and reads the fields \<^verbatim>\<open>x\<close>, \<^verbatim>\<open>y\<close>, \<^verbatim>\<open>z\<close>.
\<close>

record point_t =
  x :: float
  y :: float
  z :: float

text \<open>\<^verbatim>\<open>#define MAX_SIERPINSKI_DEPTH 8\<close>\<close>

definition MAX_SIERPINSKI_DEPTH :: int where
  "MAX_SIERPINSKI_DEPTH = 8"

section \<open>Operations\<close>

text \<open>\<^verbatim>\<open>std::vector<float>::push_back\<close>: the vector is a list, the new element goes last.\<close>

definition push_back :: "float list \<Rightarrow> float \<Rightarrow> float list" where
  "push_back points v = points @ [v]"

text \<open>
  \<^verbatim>\<open>point_t midpoint(point_t a, point_t b)\<close>: each coordinate is
  \<^verbatim>\<open>(a.x + b.x) / 2.0\<close>, that is the \<^verbatim>\<open>float\<close> sum, divided by 2 in \<^verbatim>\<open>double\<close> and
  converted to \<^verbatim>\<open>float\<close> by the assignment to the field.
\<close>

definition midpoint :: "point_t \<Rightarrow> point_t \<Rightarrow> point_t" where
  "midpoint a b =
     \<lparr> x = to_float (double_div (float_add (x a) (x b)) (Fin 2.0)),
       y = to_float (double_div (float_add (y a) (y b)) (Fin 2.0)),
       z = to_float (double_div (float_add (z a) (z b)) (Fin 2.0)) \<rparr>"

text \<open>
  \<^verbatim>\<open>void addPosAndColor(point_t p, int depth, std::vector<float> &points)\<close>.
  The vector passed by reference is taken as an argument and returned updated. The
  macro \<^verbatim>\<open>MAX_SIERPINSKI_DEPTH\<close> is the first parameter \<open>M\<close>, so that the function can
  be studied at every value of the macro; the program itself is the instance at
  \<^const>\<open>MAX_SIERPINSKI_DEPTH\<close>. The green value is \<^verbatim>\<open>depth * 1.0/MAX_SIERPINSKI_DEPTH\<close>:
  \<^verbatim>\<open>depth\<close> converted to \<^verbatim>\<open>double\<close>, times one, divided by the macro converted to
  \<^verbatim>\<open>double\<close>, and the quotient converted to \<^verbatim>\<open>float\<close> when it is passed to
  \<^verbatim>\<open>push_back\<close>. The literals \<^verbatim>\<open>0.25f\<close> and \<^verbatim>\<open>0.75f\<close> are \<^verbatim>\<open>float\<close> values as they stand.
\<close>

definition addPosAndColor :: "int \<Rightarrow> point_t \<Rightarrow> int \<Rightarrow> float list \<Rightarrow> float list" where
  "addPosAndColor M p depth points =
     (let points = push_back points (x p);
          points = push_back points (y p);
          points = push_back points (z p);
          points = push_back points (Fin 0.25);
          points = push_back points
            (to_float (double_div (double_mul (double_of_int depth) (Fin 1.0)) (double_of_int M)));
          points = push_back points (Fin 0.75)
      in points)"

text \<open>
  \<^verbatim>\<open>void addSierpinskiPts(point_t a, point_t b, point_t c, int depth,
  std::vector<float>& points)\<close>, with the macro as first parameter \<open>M\<close> and with the
  arithmetic of \<^verbatim>\<open>int\<close>: each \<^verbatim>\<open>depth + 1\<close> is an \<^const>\<open>int_add\<close>. The recursion is not
  assumed to end. The result \<open>None\<close> stands for a call that returns nothing: one that
  never ends, or one in which \<^verbatim>\<open>depth + 1\<close> overflows.

  Two values that the code does not hold are carried along, to count nested calls. A
  call is given its \<open>level\<close>, and calls its three recursive calls at \<open>level + 1\<close>; the
  state holds, beside the vector, the highest level of any call entered so far. Started
  at level 1 with 0 as the highest level so far, the levels count the calls of
  \<^verbatim>\<open>addSierpinskiPts\<close> that are active at once, the first one included; started at
  level 0 they count the recursive calls a call is nested in.
\<close>

partial_function (option) addSierpinskiPts_run ::
  "int \<Rightarrow> point_t \<Rightarrow> point_t \<Rightarrow> point_t \<Rightarrow> int \<Rightarrow> nat \<Rightarrow> float list \<times> nat
     \<Rightarrow> (float list \<times> nat) option" where
  "addSierpinskiPts_run M a b c depth level s =
     (case s of (points, deepest) \<Rightarrow>
        let deepest = max deepest level in
        if depth \<le> M then
          let points = addPosAndColor M a depth points;
              points = addPosAndColor M b depth points;
              points = addPosAndColor M c depth points;
              ab = midpoint a b;
              ac = midpoint a c;
              bc = midpoint b c
          in do {
            d \<leftarrow> int_add depth 1;
            s \<leftarrow> addSierpinskiPts_run M a ab ac d (level + 1) (points, deepest);
            d \<leftarrow> int_add depth 1;
            s \<leftarrow> addSierpinskiPts_run M b ab bc d (level + 1) s;
            d \<leftarrow> int_add depth 1;
            s \<leftarrow> addSierpinskiPts_run M c ac bc d (level + 1) s;
            Some s
          }
        else Some (points, deepest))"

text \<open>
  The vector that \<^verbatim>\<open>addSierpinskiPts\<close> returns when no \<^verbatim>\<open>depth + 1\<close> overflows, as
  a total function over the integers: the body of the code with \<open>depth + 1\<close> as the
  integer sum. For every macro value below \<^const>\<open>INT_MAX\<close> this is what
  \<^const>\<open>addSierpinskiPts_run\<close> returns (lemma \<open>addSierpinskiPts_run_eq\<close> below); at
  \<^const>\<open>INT_MAX\<close> the code returns nothing (lemma \<open>addSierpinskiPts_run_overflow\<close>).
\<close>

function addSierpinskiPts ::
  "int \<Rightarrow> point_t \<Rightarrow> point_t \<Rightarrow> point_t \<Rightarrow> int \<Rightarrow> float list \<Rightarrow> float list" where
  "addSierpinskiPts M a b c depth points =
     (if depth \<le> M then
        let points = addPosAndColor M a depth points;
            points = addPosAndColor M b depth points;
            points = addPosAndColor M c depth points;
            ab = midpoint a b;
            ac = midpoint a c;
            bc = midpoint b c;
            points = addSierpinskiPts M a ab ac (depth + 1) points;
            points = addSierpinskiPts M b ab bc (depth + 1) points;
            points = addSierpinskiPts M c ac bc (depth + 1) points
        in points
      else points)"
  by pat_completeness auto
termination
  by (relation "measure (\<lambda>(M, a, b, c, depth, points). nat (M + 1 - depth))") auto

text \<open>
  \<^verbatim>\<open>void initSierpinski(std::vector<float> &points)\<close>: the three corners of the root
  triangle, then the recursive function at depth 0 with the program's macro, 8, far
  below \<^const>\<open>INT_MAX\<close>. The six literals are \<^verbatim>\<open>float\<close> values as they stand.
\<close>

definition initSierpinski :: "float list \<Rightarrow> float list" where
  "initSierpinski points =
     (let a = \<lparr> x = Fin (- 0.5), y = Fin (- 0.5), z = Fin 0.0 \<rparr>;
          b = \<lparr> x = Fin 0.0, y = Fin 0.5, z = Fin 0.0 \<rparr>;
          c = \<lparr> x = Fin 0.5, y = Fin (- 0.5), z = Fin 0.0 \<rparr>
      in addSierpinskiPts MAX_SIERPINSKI_DEPTH a b c 0 points)"

text \<open>
  The calls of \<^const>\<open>addPosAndColor\<close> that \<^const>\<open>addSierpinskiPts\<close> makes, in the order it
  makes them, each as the point and the depth it is called with. It follows the body of
  \<^const>\<open>addSierpinskiPts\<close> line by line and leaves the vector out; lemma
  \<open>addSierpinskiPts_emitted\<close> below shows that the vector is this trace, serialised.
\<close>

function emitted ::
  "int \<Rightarrow> point_t \<Rightarrow> point_t \<Rightarrow> point_t \<Rightarrow> int \<Rightarrow> (point_t \<times> int) list" where
  "emitted M a b c depth =
     (if depth \<le> M then
        [(a, depth), (b, depth), (c, depth)] @
        emitted M a (midpoint a b) (midpoint a c) (depth + 1) @
        emitted M b (midpoint a b) (midpoint b c) (depth + 1) @
        emitted M c (midpoint a c) (midpoint b c) (depth + 1)
      else [])"
  by pat_completeness auto
termination
  by (relation "measure (\<lambda>(M, a, b, c, depth). nat (M + 1 - depth))") auto

text \<open>
  Shallower before deeper, on a trace of \<^const>\<open>emitted\<close>: whenever one entry has a
  smaller depth than another, it comes earlier in the trace.
\<close>

definition shallower_first :: "(point_t \<times> int) list \<Rightarrow> bool" where
  "shallower_first es =
     (\<forall>i < length es. \<forall>j < length es. snd (es ! i) < snd (es ! j) \<longrightarrow> i < j)"

declare addSierpinskiPts.simps [simp del]
declare emitted.simps [simp del]

section \<open>Rounding\<close>

lemma bexp_less: "r \<noteq> 0 \<Longrightarrow> \<bar>r\<bar> < 2 powr of_int k \<Longrightarrow> bexp r < k"
  unfolding bexp_def by (simp add: floor_less_iff log_less_iff)

lemma bexp_unique:
  assumes "2 powr of_int e \<le> \<bar>r\<bar>" and "\<bar>r\<bar> < 2 powr of_int (e + 1)"
  shows "bexp r = e"
proof -
  have "0 < (2::real) powr of_int e" by simp
  then have pos: "0 < \<bar>r\<bar>" using assms(1) by (rule less_le_trans)
  have "of_int e \<le> log 2 \<bar>r\<bar>" using assms(1) pos by (simp add: le_log_iff)
  moreover have "log 2 \<bar>r\<bar> < of_int e + 1" using assms(2) pos by (simp add: log_less_iff)
  ultimately show ?thesis unfolding bexp_def by (simp add: floor_eq_iff)
qed

lemma round_even_of_int: "round_even (of_int n) = n"
  by (simp add: round_even_def)

text \<open>Rounding leaves a value of the format as it is.\<close>

lemma round_to_exact:
  assumes "0 < p" and "representable p qmin emax r"
  shows "round_to p qmin emax r = Fin r"
proof (cases "r = 0")
  case True
  then show ?thesis by (simp add: round_to_def)
next
  case False
  from assms(2) obtain m e where m: "\<bar>m\<bar> < 2 ^ nat p" and e1: "qmin \<le> e"
    and e2: "e \<le> emax - p" and r: "r = of_int m * 2 powr of_int e"
    unfolding representable_def by blast
  have abs_r: "\<bar>r\<bar> = of_int \<bar>m\<bar> * 2 powr of_int e" by (simp add: r abs_mult)
  have "of_int \<bar>m\<bar> < (2::real) ^ nat p"
    using m by (metis of_int_less_iff of_int_numeral of_int_power)
  also have "(2::real) ^ nat p = 2 powr of_int p"
    using assms(1) by (simp add: powr_realpow [symmetric])
  finally have mp: "of_int \<bar>m\<bar> < 2 powr (of_int p :: real)" .
  have lt: "\<bar>r\<bar> < 2 powr of_int (p + e)"
    unfolding abs_r using mp by (simp add: powr_add)
  then have "bexp r < p + e" using False by (rule bexp_less [rotated])
  then have qe: "max (bexp r - (p - 1)) qmin \<le> e" using e1 by simp
  define q where "q = max (bexp r - (p - 1)) qmin"
  define d where "d = nat (e - q)"
  have eq: "e = q + int d" using qe by (simp add: q_def d_def)
  have quot: "r / 2 powr of_int q = of_int (m * 2 ^ d)"
    by (simp add: r eq powr_add powr_realpow)
  have v: "of_int (round_even (r / 2 powr of_int q)) * 2 powr of_int q = r"
    unfolding quot round_even_of_int by (simp add: r eq powr_add powr_realpow)
  have "\<bar>r\<bar> < 2 powr of_int emax"
  proof -
    have "p + e \<le> emax" using e2 by simp
    then have "(2::real) powr of_int (p + e) \<le> 2 powr of_int emax"
      by (intro powr_mono) simp_all
    with lt show ?thesis by (rule less_le_trans)
  qed
  then show ?thesis
    using False by (simp add: round_to_def q_def [symmetric] v Let_def)
qed

lemma float32I:
  "\<bar>m\<bar> < 16777216 \<Longrightarrow> - 149 \<le> e \<Longrightarrow> e \<le> 104 \<Longrightarrow> r = of_int m * 2 powr of_int e \<Longrightarrow> float32 r"
  unfolding float32_def representable_def by (intro exI [of _ m] exI [of _ e]) simp

lemma float64I:
  "\<bar>m\<bar> < 9007199254740992 \<Longrightarrow> - 1074 \<le> e \<Longrightarrow> e \<le> 971 \<Longrightarrow> r = of_int m * 2 powr of_int e
   \<Longrightarrow> float64 r"
  unfolding float64_def representable_def by (intro exI [of _ m] exI [of _ e]) simp

lemma float32_imp_float64: "float32 r \<Longrightarrow> float64 r"
  unfolding float32_def float64_def representable_def
  by (elim exE conjE, rule_tac x = m in exI, rule_tac x = e in exI) simp

lemma round_float_exact: "float32 r \<Longrightarrow> round_float r = Fin r"
  unfolding float32_def round_float_def by (rule round_to_exact) simp_all

lemma round_double_exact: "float64 r \<Longrightarrow> round_double r = Fin r"
  unfolding float64_def round_double_def by (rule round_to_exact) simp_all

text \<open>An \<^verbatim>\<open>int\<close> is converted to \<^verbatim>\<open>double\<close> without rounding.\<close>

lemma float64_of_int:
  assumes "- INT_MAX - 1 \<le> i" and "i \<le> INT_MAX"
  shows "float64 (of_int i)"
  using assms by (intro float64I [of i 0]) (simp_all add: INT_MAX_def)

lemma double_of_int_exact:
  assumes "- INT_MAX - 1 \<le> i" and "i \<le> INT_MAX"
  shows "double_of_int i = Fin (of_int i)"
  unfolding double_of_int_def using assms by (intro round_double_exact float64_of_int)

lemma round_even_near:
  assumes "\<bar>r - of_int n\<bar> < 1 / 2"
  shows "round_even r = n"
proof (cases "of_int n \<le> r")
  case True
  with assms have "\<lfloor>r\<rfloor> = n" by (simp add: floor_eq_iff)
  with assms True show ?thesis by (simp add: round_even_def)
next
  case False
  with assms have "\<lfloor>r\<rfloor> = n - 1" by (simp add: floor_eq_iff)
  with assms False show ?thesis by (simp add: round_even_def)
qed

text \<open>Rounding a real whose binade and nearest multiple of the quantum are known.\<close>

lemma round_to_at:
  assumes "2 powr of_int k \<le> \<bar>r\<bar>" and "\<bar>r\<bar> < 2 powr of_int (k + 1)"
    and "q = max (k - (p - 1)) qmin"
    and "\<bar>r / 2 powr of_int q - of_int n\<bar> < 1 / 2"
  shows "round_to p qmin emax r =
           (if (2::real) powr of_int emax \<le> \<bar>of_int n * 2 powr of_int q\<bar>
            then (if 0 < r then PInf else NInf) else Fin (of_int n * 2 powr of_int q))"
proof -
  have "0 < (2::real) powr of_int k" by simp
  then have "0 < \<bar>r\<bar>" using assms(1) by (rule less_le_trans)
  then have nz: "r \<noteq> 0" by simp
  have k: "bexp r = k" using assms(1,2) by (rule bexp_unique)
  have n: "round_even (r / 2 powr of_int q) = n" using assms(4) by (rule round_even_near)
  show ?thesis
    using nz by (simp add: round_to_def k assms(3) [symmetric] n Let_def)
qed

lemma round_to_at_even:
  assumes "2 powr of_int k \<le> \<bar>r\<bar>" and "\<bar>r\<bar> < 2 powr of_int (k + 1)"
    and "q = max (k - (p - 1)) qmin"
    and "round_even (r / 2 powr of_int q) = n"
  shows "round_to p qmin emax r =
           (if (2::real) powr of_int emax \<le> \<bar>of_int n * 2 powr of_int q\<bar>
            then (if 0 < r then PInf else NInf) else Fin (of_int n * 2 powr of_int q))"
proof -
  have "0 < (2::real) powr of_int k" by simp
  then have "0 < \<bar>r\<bar>" using assms(1) by (rule less_le_trans)
  then have nz: "r \<noteq> 0" by simp
  have k: "bexp r = k" using assms(1,2) by (rule bexp_unique)
  show ?thesis
    using nz by (simp add: round_to_def k assms(3) [symmetric] assms(4) Let_def)
qed

lemma float32_eighths: "0 \<le> d \<Longrightarrow> d \<le> 8 \<Longrightarrow> float32 (of_int d / 8)"
  by (rule float32I [of d "- 3"]) (simp_all add: powr_neg_numeral)

lemma float32_values:
  "float32 0" "float32 (1 / 2)" "float32 (- (1 / 2))" "float32 (1 / 4)" "float32 (- (1 / 4))"
  "float32 1" "float32 (- 1)"
proof -
  show "float32 0" by (rule float32I [of 0 0]) simp_all
  show "float32 (1 / 2)" by (rule float32I [of 1 "- 1"]) (simp_all add: powr_neg_numeral)
  show "float32 (- (1 / 2))" by (rule float32I [of "- 1" "- 1"]) (simp_all add: powr_neg_numeral)
  show "float32 (1 / 4)" by (rule float32I [of 1 "- 2"]) (simp_all add: powr_neg_numeral)
  show "float32 (- (1 / 4))" by (rule float32I [of "- 1" "- 2"]) (simp_all add: powr_neg_numeral)
  show "float32 1" by (rule float32I [of 1 0]) simp_all
  show "float32 (- 1)" by (rule float32I [of "- 1" 0]) simp_all
qed

text \<open>
  The green value of \<^const>\<open>addPosAndColor\<close>: the quotient of the two integers, rounded
  to \<^verbatim>\<open>double\<close> by the division and to \<^verbatim>\<open>float\<close> by the conversion.
\<close>

lemma green_value:
  assumes "- INT_MAX - 1 \<le> depth" "depth \<le> INT_MAX" "- INT_MAX - 1 \<le> M" "M \<le> INT_MAX" "M \<noteq> 0"
  shows "to_float (double_div (double_mul (double_of_int depth) (Fin 1.0)) (double_of_int M)) =
         to_float (round_double (of_int depth / of_int M))"
  using assms by (simp add: double_of_int_exact round_double_exact float64_of_int)

lemma green_exact:
  assumes "- INT_MAX - 1 \<le> depth" "depth \<le> INT_MAX" "- INT_MAX - 1 \<le> M" "M \<le> INT_MAX" "M \<noteq> 0"
    and "float32 (of_int depth / of_int M)"
  shows "to_float (double_div (double_mul (double_of_int depth) (Fin 1.0)) (double_of_int M)) =
         Fin (of_int depth / of_int M)"
  using assms
  by (simp add: double_of_int_exact round_float_exact round_double_exact
      float32_imp_float64 float64_of_int)

lemma green_zero:
  "to_float (double_div (double_mul (double_of_int 0) (Fin 1)) (double_of_int 0)) = NaN"
  by (simp add: double_of_int_def round_double_def round_to_def)


section \<open>Basic facts\<close>

lemma addPosAndColor_append:
  "addPosAndColor M p depth points = points @ addPosAndColor M p depth []"
  by (simp add: addPosAndColor_def push_back_def)

lemma length_addPosAndColor:
  "length (addPosAndColor M p depth points) = length points + 6"
  by (simp add: addPosAndColor_def push_back_def)

lemma addPosAndColor3_append:
  "addPosAndColor M c depth (addPosAndColor M b depth (addPosAndColor M a depth points)) =
     points @ addPosAndColor M a depth [] @ addPosAndColor M b depth [] @
       addPosAndColor M c depth []"
  by (simp add: addPosAndColor_def push_back_def)

lemma addSierpinskiPts_stop:
  "M < depth \<Longrightarrow> addSierpinskiPts M a b c depth points = points"
  by (subst addSierpinskiPts.simps) simp

lemma addSierpinskiPts_step:
  "depth \<le> M \<Longrightarrow>
   addSierpinskiPts M a b c depth points =
     addSierpinskiPts M c (midpoint a c) (midpoint b c) (depth + 1)
       (addSierpinskiPts M b (midpoint a b) (midpoint b c) (depth + 1)
         (addSierpinskiPts M a (midpoint a b) (midpoint a c) (depth + 1)
           (addPosAndColor M c depth (addPosAndColor M b depth
             (addPosAndColor M a depth points)))))"
  by (subst addSierpinskiPts.simps) (simp add: Let_def)

text \<open>What a call appends does not depend on what the vector holds already.\<close>

lemma addSierpinskiPts_append:
  "addSierpinskiPts M a b c depth points = points @ addSierpinskiPts M a b c depth []"
proof (induction "nat (M + 1 - depth)" arbitrary: a b c depth points)
  case 0
  then have "M < depth" by simp
  then show ?case by (simp add: addSierpinskiPts_stop)
next
  case (Suc n)
  then have le: "depth \<le> M" and n: "n = nat (M + 1 - (depth + 1))" by simp_all
  note IH = Suc.hyps(1) [OF n]
  define V where "V = addPosAndColor M a depth [] @ addPosAndColor M b depth [] @
    addPosAndColor M c depth []"
  define Fa where "Fa = addSierpinskiPts M a (midpoint a b) (midpoint a c) (depth + 1) []"
  define Fb where "Fb = addSierpinskiPts M b (midpoint a b) (midpoint b c) (depth + 1) []"
  define Fc where "Fc = addSierpinskiPts M c (midpoint a c) (midpoint b c) (depth + 1) []"
  have D: "addSierpinskiPts M a b c depth pts = pts @ V @ Fa @ Fb @ Fc" for pts
  proof -
    have "addSierpinskiPts M a b c depth pts =
        addSierpinskiPts M c (midpoint a c) (midpoint b c) (depth + 1)
         (addSierpinskiPts M b (midpoint a b) (midpoint b c) (depth + 1)
           (addSierpinskiPts M a (midpoint a b) (midpoint a c) (depth + 1) (pts @ V)))"
      unfolding V_def by (simp only: addSierpinskiPts_step [OF le] addPosAndColor3_append)
    also have "\<dots> = addSierpinskiPts M b (midpoint a b) (midpoint b c) (depth + 1)
           (addSierpinskiPts M a (midpoint a b) (midpoint a c) (depth + 1) (pts @ V)) @ Fc"
      unfolding Fc_def by (rule IH)
    also have "addSierpinskiPts M b (midpoint a b) (midpoint b c) (depth + 1)
           (addSierpinskiPts M a (midpoint a b) (midpoint a c) (depth + 1) (pts @ V)) =
           addSierpinskiPts M a (midpoint a b) (midpoint a c) (depth + 1) (pts @ V) @ Fb"
      unfolding Fb_def by (rule IH)
    also have "addSierpinskiPts M a (midpoint a b) (midpoint a c) (depth + 1) (pts @ V) =
           (pts @ V) @ Fa"
      unfolding Fa_def by (rule IH)
    finally show ?thesis by simp
  qed
  show ?case using D [of points] D [of "[]"] by simp
qed

text \<open>The output of a call that passes the depth test, cut into its six segments.\<close>

lemma addSierpinskiPts_unfold:
  assumes "depth \<le> M"
  shows "addSierpinskiPts M a b c depth points =
     points @ addPosAndColor M a depth [] @ addPosAndColor M b depth [] @
       addPosAndColor M c depth [] @
       addSierpinskiPts M a (midpoint a b) (midpoint a c) (depth + 1) [] @
       addSierpinskiPts M b (midpoint a b) (midpoint b c) (depth + 1) [] @
       addSierpinskiPts M c (midpoint a c) (midpoint b c) (depth + 1) []"
proof -
  let ?Fa = "addSierpinskiPts M a (midpoint a b) (midpoint a c) (depth + 1)"
  let ?Fb = "addSierpinskiPts M b (midpoint a b) (midpoint b c) (depth + 1)"
  let ?Fc = "addSierpinskiPts M c (midpoint a c) (midpoint b c) (depth + 1)"
  let ?P = "addPosAndColor M c depth (addPosAndColor M b depth
             (addPosAndColor M a depth points))"
  have "addSierpinskiPts M a b c depth points = ?Fc (?Fb (?Fa ?P))"
    by (rule addSierpinskiPts_step [OF assms])
  also have "\<dots> = ?Fb (?Fa ?P) @ ?Fc []" by (rule addSierpinskiPts_append)
  also have "?Fb (?Fa ?P) = ?Fa ?P @ ?Fb []" by (rule addSierpinskiPts_append)
  also have "?Fa ?P = ?P @ ?Fa []" by (rule addSierpinskiPts_append)
  also have "?P = points @ addPosAndColor M a depth [] @ addPosAndColor M b depth [] @
       addPosAndColor M c depth []" by (rule addPosAndColor3_append)
  finally show ?thesis by simp
qed

text \<open>
  The number of floats a call appends: 18 for each of the \<open>(3^n - 1) / 2\<close> triangles of
  the \<open>n\<close> levels from \<open>depth\<close> to \<open>M\<close>.
\<close>

lemma length_addSierpinskiPts:
  "length (addSierpinskiPts M a b c depth points) =
     length points + 9 * (3 ^ nat (M + 1 - depth) - 1)"
proof (induction "nat (M + 1 - depth)" arbitrary: a b c depth points)
  case 0
  then have "M < depth" by simp
  with 0 show ?case by (simp add: addSierpinskiPts_stop)
next
  case (Suc n)
  then have le: "depth \<le> M" and n: "n = nat (M + 1 - (depth + 1))" by simp_all
  note IH = Suc.hyps(1) [OF n]
  from n have n': "nat (M - depth) = n" by simp
  have "length (addSierpinskiPts M a b c depth points) =
      length points + (18 + 3 * (9 * (3 ^ n - 1)))"
    by (simp add: addSierpinskiPts_step [OF le] IH length_addPosAndColor n')
  also have "18 + 3 * (9 * (3 ^ n - 1)) = 9 * ((3::nat) ^ Suc n - 1)"
    by (cases "(3::nat) ^ n") simp_all
  finally show ?case using Suc.hyps(2) by simp
qed

text \<open>The vector is the trace of \<^const>\<open>emitted\<close>, one six-float record per entry.\<close>

lemma addSierpinskiPts_emitted:
  "addSierpinskiPts M a b c depth points =
     points @ concat (map (\<lambda>(p, d). addPosAndColor M p d []) (emitted M a b c depth))"
proof (induction M a b c depth arbitrary: points rule: emitted.induct)
  case (1 M a b c depth)
  show ?case
  proof (cases "depth \<le> M")
    case False
    then show ?thesis
      by (simp add: addSierpinskiPts_stop emitted.simps [of M a b c depth])
  next
    case True
    show ?thesis
      by (simp add: addSierpinskiPts_unfold [OF True, of a b c points]
          emitted.simps [of M a b c depth] True "1.IH" [OF True, of "[]"])
  qed
qed

lemma half_pow3_Suc: "((3::nat) ^ Suc n - 1) div 2 = 1 + 3 * ((3 ^ n - 1) div 2)"
proof -
  have "odd ((3::nat) ^ n)" by simp
  then obtain k where k: "(3::nat) ^ n = 2 * k + 1" by (elim oddE)
  then show ?thesis by simp
qed

text \<open>The number of calls of \<^const>\<open>addPosAndColor\<close>: three for each triangle.\<close>

lemma length_emitted:
  "length (emitted M a b c depth) = 3 * ((3 ^ nat (M + 1 - depth) - 1) div 2)"
proof (induction M a b c depth rule: emitted.induct)
  case (1 M a b c depth)
  show ?case
  proof (cases "depth \<le> M")
    case False
    then show ?thesis by (simp add: emitted.simps [of M a b c depth])
  next
    case True
    then have n: "nat (M + 1 - depth) = Suc (nat (M - depth))" by simp
    show ?thesis
      unfolding n half_pow3_Suc
      by (simp add: emitted.simps [of M a b c depth] True "1.IH" [OF True])
  qed
qed

lemma emitted_unfold:
  "depth \<le> M \<Longrightarrow>
   emitted M a b c depth =
     [(a, depth), (b, depth), (c, depth)] @
     emitted M a (midpoint a b) (midpoint a c) (depth + 1) @
     emitted M b (midpoint a b) (midpoint b c) (depth + 1) @
     emitted M c (midpoint a c) (midpoint b c) (depth + 1)"
  by (subst emitted.simps) simp

lemma emitted_Cons:
  "depth \<le> M \<Longrightarrow> \<exists>rest. emitted M a b c depth = (a, depth) # rest"
  by (simp add: emitted_unfold)

text \<open>Every depth in the trace of a call lies between the call's depth and the macro.\<close>

lemma emitted_depth_range:
  "e \<in> set (emitted M a b c depth) \<Longrightarrow> depth \<le> snd e \<and> snd e \<le> M"
proof (induction M a b c depth rule: emitted.induct)
  case (1 M a b c depth)
  show ?case
  proof (cases "depth \<le> M")
    case False
    with "1.prems" show ?thesis by (simp add: emitted.simps [of M a b c depth])
  next
    case True
    from "1.prems" have
      "e \<in> {(a, depth), (b, depth), (c, depth)} \<or>
       e \<in> set (emitted M a (midpoint a b) (midpoint a c) (depth + 1)) \<or>
       e \<in> set (emitted M b (midpoint a b) (midpoint b c) (depth + 1)) \<or>
       e \<in> set (emitted M c (midpoint a c) (midpoint b c) (depth + 1))"
      by (simp add: emitted_unfold [OF True])
    then show ?thesis
      using "1.IH" [OF True] True by fastforce
  qed
qed

text \<open>
  Two positions in the trace of a call: entry 6 is the first vertex of the first
  triangle two levels down, and the triangle of the second branch starts only after the
  whole trace of the first branch.
\<close>

lemma emitted_nth_first_grandchild:
  assumes "depth + 2 \<le> M"
  shows "emitted M a b c depth ! 6 = (a, depth + 2)"
proof -
  let ?ab = "midpoint a b" and ?ac = "midpoint a c"
  from assms have le: "depth \<le> M" "depth + 1 \<le> M" "depth + 1 + 1 \<le> M" by simp_all
  obtain r2 where r2: "emitted M a (midpoint a ?ab) (midpoint a ?ac) (depth + 1 + 1) =
      (a, depth + 1 + 1) # r2"
    using emitted_Cons [OF le(3)] by blast
  have "emitted M a ?ab ?ac (depth + 1) ! 3 = (a, depth + 1 + 1)"
    by (simp only: emitted_unfold [OF le(2)] r2) simp
  moreover have "3 < length (emitted M a ?ab ?ac (depth + 1))"
    by (simp only: emitted_unfold [OF le(2)] r2) simp
  ultimately show ?thesis
    by (simp only: emitted_unfold [OF le(1)]) (simp add: nth_append)
qed

lemma emitted_nth_second_child:
  assumes "depth + 1 \<le> M"
  shows "emitted M a b c depth !
           (3 + length (emitted M a (midpoint a b) (midpoint a c) (depth + 1))) =
         (b, depth + 1)"
proof -
  from assms have le: "depth \<le> M" "depth + 1 \<le> M" by simp_all
  obtain r where r: "emitted M b (midpoint a b) (midpoint b c) (depth + 1) =
      (b, depth + 1) # r"
    using emitted_Cons [OF le(2)] by blast
  show ?thesis
    by (simp only: emitted_unfold [OF le(1)] r) (simp add: nth_append)
qed


text \<open>
  Below \<^const>\<open>INT_MAX\<close> no \<^verbatim>\<open>depth + 1\<close> overflows: the recursion returns, with the vector
  of \<^const>\<open>addSierpinskiPts\<close>, and the highest level entered is the level of the calls
  at depth \<open>M + 1\<close>.
\<close>

lemma addSierpinskiPts_run_eq:
  assumes "M < INT_MAX" and "- INT_MAX - 1 \<le> depth"
  shows "addSierpinskiPts_run M a b c depth level (points, deepest) =
     Some (addSierpinskiPts M a b c depth points, max deepest (level + nat (M + 1 - depth)))"
  using assms(2)
proof (induction "nat (M + 1 - depth)" arbitrary: a b c depth level points deepest)
  case 0
  then have "M < depth" by simp
  with 0 show ?case
    by (subst addSierpinskiPts_run.simps) (simp add: addSierpinskiPts_stop)
next
  case (Suc n)
  then have le: "depth \<le> M" and n: "n = nat (M + 1 - (depth + 1))" by simp_all
  have lo: "- INT_MAX - 1 \<le> depth + 1" using Suc.prems by simp
  note IH = Suc.hyps(1) [OF n lo]
  have succ: "int_add depth 1 = Some (depth + 1)"
    using le assms(1) Suc.prems by (simp add: int_add_def)
  show ?case
    apply (subst addSierpinskiPts_run.simps)
    using Suc.hyps(2) le
    apply (simp add: succ IH addSierpinskiPts_step [OF le] n [symmetric] Let_def)
    done
qed

text \<open>
  At \<^const>\<open>INT_MAX\<close> the test \<open>depth \<le> M\<close> holds for every \<^verbatim>\<open>int\<close>: the recursion goes
  down its first branch until \<^verbatim>\<open>depth + 1\<close> overflows, and returns nothing.
\<close>

lemma addSierpinskiPts_run_overflow:
  assumes "INT_MAX \<le> M" and "depth \<le> INT_MAX" and "- INT_MAX - 1 \<le> depth"
  shows "addSierpinskiPts_run M a b c depth level s = None"
  using assms(2,3)
proof (induction "nat (INT_MAX - depth)" arbitrary: a b c depth level s)
  case 0
  then have "depth = INT_MAX" by simp
  then have over: "int_add depth 1 = None" and le: "depth \<le> M"
    using assms(1) by (simp_all add: int_add_def)
  show ?case
    by (subst addSierpinskiPts_run.simps) (simp add: over le split: prod.split)
next
  case (Suc n)
  then have lt: "depth < INT_MAX" and n: "n = nat (INT_MAX - (depth + 1))" by simp_all
  then have le: "depth \<le> M" and up: "depth + 1 \<le> INT_MAX" using assms(1) by simp_all
  have lo: "- INT_MAX - 1 \<le> depth + 1" using Suc.prems by simp
  have succ: "int_add depth 1 = Some (depth + 1)"
    using up lo by (simp add: int_add_def)
  note IH = Suc.hyps(1) [OF n up lo]
  show ?case
    by (subst addSierpinskiPts_run.simps) (simp add: succ le IH Let_def split: prod.split)
qed

text \<open>The record of \<^const>\<open>addPosAndColor\<close>, with the green value as the code rounds it.\<close>

lemma addPosAndColor_record:
  assumes "- INT_MAX - 1 \<le> depth" "depth \<le> INT_MAX" "- INT_MAX - 1 \<le> M" "M \<le> INT_MAX" "M \<noteq> 0"
  shows "addPosAndColor M p depth points =
           points @ [x p, y p, z p, Fin 0.25,
             to_float (round_double (of_int depth / of_int M)), Fin 0.75]"
  unfolding addPosAndColor_def push_back_def Let_def green_value [OF assms] by simp

lemma addPosAndColor_exact:
  assumes "- INT_MAX - 1 \<le> depth" "depth \<le> INT_MAX" "- INT_MAX - 1 \<le> M" "M \<le> INT_MAX" "M \<noteq> 0"
    and "float32 (of_int depth / of_int M)"
  shows "addPosAndColor M p depth points =
           points @ [x p, y p, z p, Fin 0.25, Fin (of_int depth / of_int M), Fin 0.75]"
  unfolding addPosAndColor_def push_back_def Let_def green_exact [OF assms] by simp

text \<open>The three midpoints of the root triangle of \<^const>\<open>initSierpinski\<close>.\<close>

lemma root_midpoints:
  "midpoint \<lparr>x = Fin (- 0.5), y = Fin (- 0.5), z = Fin 0\<rparr> \<lparr>x = Fin 0, y = Fin 0.5, z = Fin 0\<rparr> =
     \<lparr>x = Fin (- 0.25), y = Fin 0, z = Fin 0\<rparr>"
  "midpoint \<lparr>x = Fin (- 0.5), y = Fin (- 0.5), z = Fin 0\<rparr> \<lparr>x = Fin 0.5, y = Fin (- 0.5), z = Fin 0\<rparr> =
     \<lparr>x = Fin 0, y = Fin (- 0.5), z = Fin 0\<rparr>"
  "midpoint \<lparr>x = Fin 0, y = Fin 0.5, z = Fin 0\<rparr> \<lparr>x = Fin 0.5, y = Fin (- 0.5), z = Fin 0\<rparr> =
     \<lparr>x = Fin 0.25, y = Fin 0, z = Fin 0\<rparr>"
  by (simp_all add: midpoint_def round_float_exact round_double_exact float32_imp_float64
      float32_values)

section \<open>The claims\<close>

text \<open>
  C1, as the code has it. For every macro value \<open>D\<close> with \<open>0 \<le> D < INT_MAX\<close> and all
  corner points \<open>a\<close>, \<open>b\<close>, \<open>c\<close>, the call of \<^verbatim>\<open>addSierpinskiPts\<close> at depth 0 returns,
  and the vector it fills holds exactly \<open>6 * 3 * (3^(D+1) - 1) / 2\<close> floats;
  \<^const>\<open>addPosAndColor\<close> is called \<open>3 * (3^(D+1) - 1) / 2\<close> times, once for each six-float
  vertex record.
\<close>

theorem vertex_stream_length:
  assumes "0 \<le> D" and "D < INT_MAX"
  shows "(\<exists>n. addSierpinskiPts_run D a b c 0 1 ([], 0) =
              Some (addSierpinskiPts D a b c 0 [], n)) \<and>
         length (addSierpinskiPts D a b c 0 []) = 6 * 3 * (3 ^ (nat D + 1) - 1) div 2 \<and>
         length (emitted D a b c 0) = 3 * (3 ^ (nat D + 1) - 1) div 2"
proof -
  have n: "nat (D + 1 - 0) = nat D + 1" using assms(1) by simp
  have "odd ((3::nat) ^ (nat D + 1))" by simp
  then obtain k where k: "(3::nat) ^ (nat D + 1) = 2 * k + 1" by (elim oddE)
  have lo: "- INT_MAX - 1 \<le> (0::int)" by (simp add: INT_MAX_def)
  have run: "\<exists>n. addSierpinskiPts_run D a b c 0 1 ([], 0) =
      Some (addSierpinskiPts D a b c 0 [], n)"
    by (simp add: addSierpinskiPts_run_eq [OF assms(2) lo])
  have "length (addSierpinskiPts D a b c 0 []) = 9 * (3 ^ (nat D + 1) - 1)"
    by (simp only: length_addSierpinskiPts n list.size add_0)
  moreover have "length (emitted D a b c 0) = 3 * ((3 ^ (nat D + 1) - 1) div 2)"
    by (simp only: length_emitted n)
  ultimately show ?thesis using run unfolding k by simp
qed

theorem vertex_stream_length_witness:
  "(0::int) \<le> 1 \<and> (1::int) < INT_MAX \<and>
   (\<exists>n. addSierpinskiPts_run 1 \<lparr>x = Fin (- 0.5), y = Fin (- 0.5), z = Fin 0\<rparr>
     \<lparr>x = Fin 0, y = Fin 0.5, z = Fin 0\<rparr> \<lparr>x = Fin 0.5, y = Fin (- 0.5), z = Fin 0\<rparr> 0 1 ([], 0) =
     Some (addSierpinskiPts 1 \<lparr>x = Fin (- 0.5), y = Fin (- 0.5), z = Fin 0\<rparr>
       \<lparr>x = Fin 0, y = Fin 0.5, z = Fin 0\<rparr> \<lparr>x = Fin 0.5, y = Fin (- 0.5), z = Fin 0\<rparr> 0 [], n)) \<and>
   length (addSierpinskiPts 1 \<lparr>x = Fin (- 0.5), y = Fin (- 0.5), z = Fin 0\<rparr>
     \<lparr>x = Fin 0, y = Fin 0.5, z = Fin 0\<rparr> \<lparr>x = Fin 0.5, y = Fin (- 0.5), z = Fin 0\<rparr> 0 []) = 72 \<and>
   length (emitted 1 \<lparr>x = Fin (- 0.5), y = Fin (- 0.5), z = Fin 0\<rparr>
     \<lparr>x = Fin 0, y = Fin 0.5, z = Fin 0\<rparr> \<lparr>x = Fin 0.5, y = Fin (- 0.5), z = Fin 0\<rparr> 0) = 12"
proof -
  have h: "(0::int) \<le> 1" "(1::int) < INT_MAX" by (simp_all add: INT_MAX_def)
  show ?thesis
    using h vertex_stream_length [OF h, of "\<lparr>x = Fin (- 0.5), y = Fin (- 0.5), z = Fin 0\<rparr>" "\<lparr>x = Fin 0, y = Fin 0.5, z = Fin 0\<rparr>" "\<lparr>x = Fin 0.5, y = Fin (- 0.5), z = Fin 0\<rparr>"]
    by simp
qed

text \<open>
  C1 as stated fails at \<open>D = 2^31 - 1\<close>, the greatest \<^verbatim>\<open>int\<close>: the test \<open>depth \<le> D\<close>
  never fails, \<^verbatim>\<open>depth + 1\<close> overflows and the call returns no vector.
\<close>

theorem vertex_stream_length_counterexample:
  "addSierpinskiPts_run 2147483647 \<lparr>x = Fin (- 0.5), y = Fin (- 0.5), z = Fin 0\<rparr>
     \<lparr>x = Fin 0, y = Fin 0.5, z = Fin 0\<rparr> \<lparr>x = Fin 0.5, y = Fin (- 0.5), z = Fin 0\<rparr> 0 1 ([], 0) = None"
  by (rule addSierpinskiPts_run_overflow) (simp_all add: INT_MAX_def)

text \<open>
  C2, as the code has it. For every macro value \<open>M < INT_MAX\<close>, a call of
  \<^verbatim>\<open>addSierpinskiPts\<close> returns. With \<open>depth \<le> M\<close> it appends first the records of \<open>a\<close>,
  \<open>b\<close>, \<open>c\<close>, in that order and at the current depth, and then what the three recursive
  calls append, in the order: \<open>(a, midpoint a b, midpoint a c)\<close>,
  \<open>(b, midpoint a b, midpoint b c)\<close>, \<open>(c, midpoint a c, midpoint b c)\<close>, each at
  \<open>depth + 1\<close> and each run to its end before the next starts. With \<open>depth > M\<close> the
  call appends nothing. At \<open>depth = M\<close> the triangle is appended and nothing after it.
\<close>

theorem emission_order:
  assumes "M < INT_MAX" and "- INT_MAX - 1 \<le> depth"
  shows
  "(\<exists>n. addSierpinskiPts_run M a b c depth level (points, deepest) =
          Some (addSierpinskiPts M a b c depth points, n)) \<and>
   (depth \<le> M \<longrightarrow>
      addSierpinskiPts M a b c depth points =
        points @ addPosAndColor M a depth [] @ addPosAndColor M b depth [] @
          addPosAndColor M c depth [] @
          addSierpinskiPts M a (midpoint a b) (midpoint a c) (depth + 1) [] @
          addSierpinskiPts M b (midpoint a b) (midpoint b c) (depth + 1) [] @
          addSierpinskiPts M c (midpoint a c) (midpoint b c) (depth + 1) []) \<and>
   (M < depth \<longrightarrow> addSierpinskiPts M a b c depth points = points) \<and>
   (depth = M \<longrightarrow>
      addSierpinskiPts M a b c depth points =
        points @ addPosAndColor M a depth [] @ addPosAndColor M b depth [] @
          addPosAndColor M c depth [])"
proof (intro conjI impI)
  show "\<exists>n. addSierpinskiPts_run M a b c depth level (points, deepest) =
          Some (addSierpinskiPts M a b c depth points, n)"
    by (simp add: addSierpinskiPts_run_eq [OF assms])
next
  assume "depth \<le> M"
  then show "addSierpinskiPts M a b c depth points =
        points @ addPosAndColor M a depth [] @ addPosAndColor M b depth [] @
          addPosAndColor M c depth [] @
          addSierpinskiPts M a (midpoint a b) (midpoint a c) (depth + 1) [] @
          addSierpinskiPts M b (midpoint a b) (midpoint b c) (depth + 1) [] @
          addSierpinskiPts M c (midpoint a c) (midpoint b c) (depth + 1) []"
    by (rule addSierpinskiPts_unfold)
next
  assume "M < depth"
  then show "addSierpinskiPts M a b c depth points = points"
    by (rule addSierpinskiPts_stop)
next
  assume eq: "depth = M"
  then have "depth \<le> M" and "M < depth + 1" by simp_all
  then show "addSierpinskiPts M a b c depth points =
        points @ addPosAndColor M a depth [] @ addPosAndColor M b depth [] @
          addPosAndColor M c depth []"
    by (simp add: addSierpinskiPts_unfold addSierpinskiPts_stop)
qed

text \<open>
  The root triangle of the program with the macro at 1: the call returns, with the
  twelve records; a call beyond the bound leaves the vector as it is.
\<close>

theorem emission_order_witness:
  "(1::int) < INT_MAX \<and> - INT_MAX - 1 \<le> (0::int) \<and> (0::int) \<le> 1 \<and>
   (\<exists>n. addSierpinskiPts_run 1 \<lparr>x = Fin (- 0.5), y = Fin (- 0.5), z = Fin 0\<rparr>
     \<lparr>x = Fin 0, y = Fin 0.5, z = Fin 0\<rparr> \<lparr>x = Fin 0.5, y = Fin (- 0.5), z = Fin 0\<rparr> 0 1 ([], 0) =
     Some (addSierpinskiPts 1 \<lparr>x = Fin (- 0.5), y = Fin (- 0.5), z = Fin 0\<rparr>
       \<lparr>x = Fin 0, y = Fin 0.5, z = Fin 0\<rparr> \<lparr>x = Fin 0.5, y = Fin (- 0.5), z = Fin 0\<rparr> 0 [], n)) \<and>
   addSierpinskiPts 1 \<lparr>x = Fin (- 0.5), y = Fin (- 0.5), z = Fin 0\<rparr>
     \<lparr>x = Fin 0, y = Fin 0.5, z = Fin 0\<rparr> \<lparr>x = Fin 0.5, y = Fin (- 0.5), z = Fin 0\<rparr> 0 [] =
   [Fin (- 0.5), Fin (- 0.5), Fin 0, Fin 0.25, Fin 0, Fin 0.75,
    Fin 0, Fin 0.5, Fin 0, Fin 0.25, Fin 0, Fin 0.75,
    Fin 0.5, Fin (- 0.5), Fin 0, Fin 0.25, Fin 0, Fin 0.75,
    Fin (- 0.5), Fin (- 0.5), Fin 0, Fin 0.25, Fin 1, Fin 0.75,
    Fin (- 0.25), Fin 0, Fin 0, Fin 0.25, Fin 1, Fin 0.75,
    Fin 0, Fin (- 0.5), Fin 0, Fin 0.25, Fin 1, Fin 0.75,
    Fin 0, Fin 0.5, Fin 0, Fin 0.25, Fin 1, Fin 0.75,
    Fin (- 0.25), Fin 0, Fin 0, Fin 0.25, Fin 1, Fin 0.75,
    Fin 0.25, Fin 0, Fin 0, Fin 0.25, Fin 1, Fin 0.75,
    Fin 0.5, Fin (- 0.5), Fin 0, Fin 0.25, Fin 1, Fin 0.75,
    Fin 0, Fin (- 0.5), Fin 0, Fin 0.25, Fin 1, Fin 0.75,
    Fin 0.25, Fin 0, Fin 0, Fin 0.25, Fin 1, Fin 0.75] \<and>
   (1::int) < 2 \<and>
   addSierpinskiPts 1 \<lparr>x = Fin (- 0.5), y = Fin (- 0.5), z = Fin 0\<rparr>
     \<lparr>x = Fin 0, y = Fin 0.5, z = Fin 0\<rparr> \<lparr>x = Fin 0.5, y = Fin (- 0.5), z = Fin 0\<rparr> 2 [Fin 7] =
   [Fin 7]"
proof -
  let ?a = "\<lparr>x = Fin (- 0.5), y = Fin (- 0.5), z = Fin 0\<rparr>"
  let ?b = "\<lparr>x = Fin 0, y = Fin 0.5, z = Fin 0\<rparr>"
  let ?c = "\<lparr>x = Fin 0.5, y = Fin (- 0.5), z = Fin 0\<rparr>"
  have h: "(1::int) < INT_MAX" "- INT_MAX - 1 \<le> (0::int)" "- INT_MAX - 1 \<le> (0::int) + 1"
    "- INT_MAX - 1 \<le> (2::int)"
    by (simp_all add: INT_MAX_def)
  have rec0: "addPosAndColor 1 p 0 [] = [x p, y p, z p, Fin 0.25, Fin 0, Fin 0.75]" for p
    using addPosAndColor_exact [of 0 1 p "[]"] by (simp add: INT_MAX_def float32_values)
  have rec1: "addPosAndColor 1 p 1 [] = [x p, y p, z p, Fin 0.25, Fin 1, Fin 0.75]" for p
    using addPosAndColor_exact [of 1 1 p "[]"] by (simp add: INT_MAX_def float32_values)
  have run: "\<exists>n. addSierpinskiPts_run 1 ?a ?b ?c 0 1 ([], 0) =
      Some (addSierpinskiPts 1 ?a ?b ?c 0 [], n)"
    by (rule emission_order [OF h(1) h(2), of ?a ?b ?c 1 "[]" 0, THEN conjunct1])
  have leaf: "addSierpinskiPts 1 p q r (0 + 1) [] =
      addPosAndColor 1 p 1 [] @ addPosAndColor 1 q 1 [] @ addPosAndColor 1 r 1 []" for p q r
    using emission_order [OF h(1) h(3), of p q r 0 "[]" 0,
        THEN conjunct2, THEN conjunct2, THEN conjunct2] by simp
  have top: "addSierpinskiPts 1 ?a ?b ?c 0 [] =
      addPosAndColor 1 ?a 0 [] @ addPosAndColor 1 ?b 0 [] @ addPosAndColor 1 ?c 0 [] @
      addSierpinskiPts 1 ?a (midpoint ?a ?b) (midpoint ?a ?c) (0 + 1) [] @
      addSierpinskiPts 1 ?b (midpoint ?a ?b) (midpoint ?b ?c) (0 + 1) [] @
      addSierpinskiPts 1 ?c (midpoint ?a ?c) (midpoint ?b ?c) (0 + 1) []"
    using emission_order [OF h(1) h(2), of ?a ?b ?c 0 "[]" 0,
        THEN conjunct2, THEN conjunct1] by simp
  have stop: "addSierpinskiPts 1 ?a ?b ?c 2 [Fin 7] = [Fin 7]"
    using emission_order [OF h(1) h(4), of ?a ?b ?c 0 "[Fin 7]" 0,
        THEN conjunct2, THEN conjunct2, THEN conjunct1] by simp
  have vec: "addSierpinskiPts 1 ?a ?b ?c 0 [] =
   [Fin (- 0.5), Fin (- 0.5), Fin 0, Fin 0.25, Fin 0, Fin 0.75,
    Fin 0, Fin 0.5, Fin 0, Fin 0.25, Fin 0, Fin 0.75,
    Fin 0.5, Fin (- 0.5), Fin 0, Fin 0.25, Fin 0, Fin 0.75,
    Fin (- 0.5), Fin (- 0.5), Fin 0, Fin 0.25, Fin 1, Fin 0.75,
    Fin (- 0.25), Fin 0, Fin 0, Fin 0.25, Fin 1, Fin 0.75,
    Fin 0, Fin (- 0.5), Fin 0, Fin 0.25, Fin 1, Fin 0.75,
    Fin 0, Fin 0.5, Fin 0, Fin 0.25, Fin 1, Fin 0.75,
    Fin (- 0.25), Fin 0, Fin 0, Fin 0.25, Fin 1, Fin 0.75,
    Fin 0.25, Fin 0, Fin 0, Fin 0.25, Fin 1, Fin 0.75,
    Fin 0.5, Fin (- 0.5), Fin 0, Fin 0.25, Fin 1, Fin 0.75,
    Fin 0, Fin (- 0.5), Fin 0, Fin 0.25, Fin 1, Fin 0.75,
    Fin 0.25, Fin 0, Fin 0, Fin 0.25, Fin 1, Fin 0.75]"
    unfolding top leaf root_midpoints rec0 rec1 by simp
  show ?thesis
    by (intro conjI run vec stop) (simp_all add: INT_MAX_def)
qed

text \<open>
  C2 as stated fails at \<open>depth = maxDepth = 2^31 - 1\<close>: the call does not stop after
  the three records of the triangle, its \<^verbatim>\<open>depth + 1\<close> overflows and it returns nothing.
\<close>

theorem emission_order_counterexample:
  "addSierpinskiPts_run 2147483647 \<lparr>x = Fin (- 0.5), y = Fin (- 0.5), z = Fin 0\<rparr>
     \<lparr>x = Fin 0, y = Fin 0.5, z = Fin 0\<rparr> \<lparr>x = Fin 0.5, y = Fin (- 0.5), z = Fin 0\<rparr> 2147483647 1 ([], 0) = None"
  by (rule addSierpinskiPts_run_overflow) (simp_all add: INT_MAX_def)

text \<open>
  C3. Every record that \<^const>\<open>addPosAndColor\<close> appends is six values in this order: the
  point's \<open>x\<close>, \<open>y\<close>, \<open>z\<close> as they are, then red 0.25, green \<open>depth / M\<close> for the depth
  the function is called with, and blue 0.75. The green value is the quotient as the
  code computes it, in \<^verbatim>\<open>double\<close> and then converted to \<^verbatim>\<open>float\<close>, for every macro
  value other than 0. With the program's macro, 8, and a depth from 0 to 8 it is the
  quotient \<open>depth / 8\<close> itself, and the vector of \<^const>\<open>addSierpinskiPts\<close> is made of such
  records only, one for each entry of the trace.
\<close>

theorem vertex_record:
  "(- INT_MAX - 1 \<le> depth \<and> depth \<le> INT_MAX \<and> - INT_MAX - 1 \<le> M \<and> M \<le> INT_MAX \<and> M \<noteq> 0 \<longrightarrow>
      addPosAndColor M p depth points =
        points @ [x p, y p, z p, Fin 0.25,
          to_float (round_double (of_int depth / of_int M)), Fin 0.75]) \<and>
   (0 \<le> depth \<and> depth \<le> MAX_SIERPINSKI_DEPTH \<longrightarrow>
      addPosAndColor MAX_SIERPINSKI_DEPTH p depth points =
        points @ [x p, y p, z p, Fin 0.25,
          Fin (of_int depth / of_int MAX_SIERPINSKI_DEPTH), Fin 0.75]) \<and>
   (0 \<le> start \<longrightarrow>
      addSierpinskiPts MAX_SIERPINSKI_DEPTH a b c start points =
        points @ concat (map (\<lambda>(p, d).
          [x p, y p, z p, Fin 0.25, Fin (of_int d / of_int MAX_SIERPINSKI_DEPTH), Fin 0.75])
          (emitted MAX_SIERPINSKI_DEPTH a b c start)))"
proof (intro conjI impI)
  assume "- INT_MAX - 1 \<le> depth \<and> depth \<le> INT_MAX \<and> - INT_MAX - 1 \<le> M \<and> M \<le> INT_MAX \<and> M \<noteq> 0"
  then show "addPosAndColor M p depth points =
        points @ [x p, y p, z p, Fin 0.25,
          to_float (round_double (of_int depth / of_int M)), Fin 0.75]"
    by (intro addPosAndColor_record) simp_all
next
  have rec: "addPosAndColor 8 q d pts =
      pts @ [x q, y q, z q, Fin 0.25, Fin (of_int d / 8), Fin 0.75]"
    if "0 \<le> d" "d \<le> 8" for q d pts
    using that addPosAndColor_exact [of d 8 q pts]
    by (simp add: INT_MAX_def float32_eighths)
  {
    assume "0 \<le> depth \<and> depth \<le> MAX_SIERPINSKI_DEPTH"
    then show "addPosAndColor MAX_SIERPINSKI_DEPTH p depth points =
        points @ [x p, y p, z p, Fin 0.25,
          Fin (of_int depth / of_int MAX_SIERPINSKI_DEPTH), Fin 0.75]"
      by (simp add: MAX_SIERPINSKI_DEPTH_def rec)
  next
    assume start: "0 \<le> start"
    have "(case e of (q, d) \<Rightarrow> addPosAndColor 8 q d []) =
        (case e of (q, d) \<Rightarrow> [x q, y q, z q, Fin 0.25, Fin (of_int d / 8), Fin 0.75])"
      if "e \<in> set (emitted 8 a b c start)" for e
    proof -
      from that have "start \<le> snd e \<and> snd e \<le> 8" by (rule emitted_depth_range)
      with start show ?thesis by (cases e) (simp add: rec)
    qed
    then have meq: "map (\<lambda>(q, d). addPosAndColor 8 q d []) (emitted 8 a b c start) =
        map (\<lambda>(q, d). [x q, y q, z q, Fin 0.25, Fin (of_int d / 8), Fin 0.75])
          (emitted 8 a b c start)"
      by (intro map_cong refl)
    have "addSierpinskiPts 8 a b c start points =
        points @ concat (map (\<lambda>(q, d).
          [x q, y q, z q, Fin 0.25, Fin (of_int d / 8), Fin 0.75]) (emitted 8 a b c start))"
      by (simp only: addSierpinskiPts_emitted [of 8 a b c start points] meq)
    then show "addSierpinskiPts MAX_SIERPINSKI_DEPTH a b c start points =
        points @ concat (map (\<lambda>(p, d).
          [x p, y p, z p, Fin 0.25, Fin (of_int d / of_int MAX_SIERPINSKI_DEPTH), Fin 0.75])
          (emitted MAX_SIERPINSKI_DEPTH a b c start))"
      by (simp add: MAX_SIERPINSKI_DEPTH_def)
  }
qed

text \<open>
  At macro 3 and depth 1 the green value is the \<^verbatim>\<open>float\<close> next to a third; at the
  program's macro and depth 3 it is three eighths; and the vector of the program is made
  of records with green \<open>depth / 8\<close>.
\<close>

theorem vertex_record_witness:
  "- INT_MAX - 1 \<le> (1::int) \<and> (1::int) \<le> INT_MAX \<and> - INT_MAX - 1 \<le> (3::int) \<and> (3::int) \<le> INT_MAX \<and>
   (3::int) \<noteq> 0 \<and>
   addPosAndColor 3 \<lparr>x = Fin (- 0.25), y = Fin 0, z = Fin 0\<rparr> 1 [] =
     [Fin (- 0.25), Fin 0, Fin 0, Fin 0.25, Fin (11184811 / 33554432), Fin 0.75] \<and>
   (0::int) \<le> 3 \<and> (3::int) \<le> MAX_SIERPINSKI_DEPTH \<and>
   addPosAndColor MAX_SIERPINSKI_DEPTH \<lparr>x = Fin (- 0.25), y = Fin 0, z = Fin 0\<rparr> 3 [] =
     [Fin (- 0.25), Fin 0, Fin 0, Fin 0.25, Fin (3 / 8), Fin 0.75] \<and>
   (0::int) \<le> 0 \<and>
   initSierpinski [] =
     concat (map (\<lambda>(p, d).
          [x p, y p, z p, Fin 0.25, Fin (of_int d / of_int MAX_SIERPINSKI_DEPTH), Fin 0.75])
          (emitted MAX_SIERPINSKI_DEPTH \<lparr>x = Fin (- 0.5), y = Fin (- 0.5), z = Fin 0\<rparr>
            \<lparr>x = Fin 0, y = Fin 0.5, z = Fin 0\<rparr> \<lparr>x = Fin 0.5, y = Fin (- 0.5), z = Fin 0\<rparr> 0))"
proof -
  let ?p = "\<lparr>x = Fin (- 0.25), y = Fin 0, z = Fin 0\<rparr>"
  have third: "to_float (round_double (1 / 3)) = Fin (11184811 / 33554432)"
  proof -
    have "round_double (1 / 3) = Fin (6004799503160661 / 18014398509481984)"
      unfolding round_double_def
      by (subst round_to_at [where k = "- 2" and q = "- 54" and n = 6004799503160661])
         (simp_all add: powr_neg_numeral)
    moreover have "round_float (6004799503160661 / 18014398509481984) =
        Fin (11184811 / 33554432)"
      unfolding round_float_def
      by (subst round_to_at [where k = "- 2" and q = "- 25" and n = 11184811])
         (simp_all add: powr_neg_numeral)
    ultimately show ?thesis by simp
  qed
  have w1: "addPosAndColor 3 ?p 1 [] =
     [Fin (- 0.25), Fin 0, Fin 0, Fin 0.25, Fin (11184811 / 33554432), Fin 0.75]"
    using vertex_record [where ?depth = 1 and ?M = 3 and ?p = ?p and ?points = "[]",
        THEN conjunct1] third
    by (simp add: INT_MAX_def)
  have w2: "addPosAndColor MAX_SIERPINSKI_DEPTH ?p 3 [] =
     [Fin (- 0.25), Fin 0, Fin 0, Fin 0.25, Fin (3 / 8), Fin 0.75]"
    using vertex_record [where ?depth = 3 and ?p = ?p and ?points = "[]",
        THEN conjunct2, THEN conjunct1]
    by (simp add: MAX_SIERPINSKI_DEPTH_def)
  have w3: "initSierpinski [] =
     concat (map (\<lambda>(p, d).
          [x p, y p, z p, Fin 0.25, Fin (of_int d / of_int MAX_SIERPINSKI_DEPTH), Fin 0.75])
          (emitted MAX_SIERPINSKI_DEPTH \<lparr>x = Fin (- 0.5), y = Fin (- 0.5), z = Fin 0\<rparr>
            \<lparr>x = Fin 0, y = Fin 0.5, z = Fin 0\<rparr> \<lparr>x = Fin 0.5, y = Fin (- 0.5), z = Fin 0\<rparr> 0))"
    using vertex_record [where ?start = 0 and ?a = "\<lparr>x = Fin (- 0.5), y = Fin (- 0.5), z = Fin 0\<rparr>"
        and ?b = "\<lparr>x = Fin 0, y = Fin 0.5, z = Fin 0\<rparr>" and ?c = "\<lparr>x = Fin 0.5, y = Fin (- 0.5), z = Fin 0\<rparr>"
        and ?points = "[]", THEN conjunct2, THEN conjunct2]
    by (simp add: initSierpinski_def)
  show ?thesis
    unfolding w1 w2 by (simp add: INT_MAX_def MAX_SIERPINSKI_DEPTH_def w3 [unfolded MAX_SIERPINSKI_DEPTH_def])
qed

text \<open>
  C4, as the code has it. With the macro at 0 and any corner points \<open>a\<close>, \<open>b\<close>, \<open>c\<close>,
  the vector filled from depth 0 is exactly three records, with the positions \<open>a\<close>,
  \<open>b\<close>, \<open>c\<close> in input order, red 0.25 and blue 0.75. The green value is what the
  division \<^verbatim>\<open>0 * 1.0/0\<close> returns, a NaN: the division by zero is carried out, and
  nothing replaces its result by 0.
\<close>

theorem zero_bound_stream:
  "addSierpinskiPts 0 a b c 0 [] =
     [x a, y a, z a, Fin 0.25, NaN, Fin 0.75,
      x b, y b, z b, Fin 0.25, NaN, Fin 0.75,
      x c, y c, z c, Fin 0.25, NaN, Fin 0.75]"
  by (simp add: addSierpinskiPts_unfold addSierpinskiPts_stop addPosAndColor_def push_back_def
      green_zero)

text \<open>
  C4 as stated fails: for the root triangle of the program and the macro at 0, the
  vector is not the three records with green 0.
\<close>

theorem zero_bound_green_counterexample:
  "addSierpinskiPts 0 \<lparr>x = Fin (- 0.5), y = Fin (- 0.5), z = Fin 0\<rparr>
     \<lparr>x = Fin 0, y = Fin 0.5, z = Fin 0\<rparr> \<lparr>x = Fin 0.5, y = Fin (- 0.5), z = Fin 0\<rparr> 0 [] \<noteq>
   [Fin (- 0.5), Fin (- 0.5), Fin 0, Fin 0.25, Fin 0, Fin 0.75,
    Fin 0, Fin 0.5, Fin 0, Fin 0.25, Fin 0, Fin 0.75,
    Fin 0.5, Fin (- 0.5), Fin 0, Fin 0.25, Fin 0, Fin 0.75]"
  by (simp add: addSierpinskiPts_unfold addSierpinskiPts_stop addPosAndColor_def push_back_def
      green_zero)

text \<open>
  C5. With a negative macro value and any corner points, the call at depth 0 appends
  nothing: from the empty vector it returns the empty vector. It returns at once, with
  no recursive call made (the deepest level entered is 0).
\<close>

theorem negative_bound_empty:
  assumes "M < 0"
  shows "addSierpinskiPts M a b c 0 [] = [] \<and>
         addSierpinskiPts_run M a b c 0 0 ([], 0) = Some ([], 0)"
proof -
  from assms have "M < INT_MAX" by (simp add: INT_MAX_def)
  moreover have "- INT_MAX - 1 \<le> (0::int)" by (simp add: INT_MAX_def)
  ultimately have "addSierpinskiPts_run M a b c 0 0 ([], 0) =
      Some (addSierpinskiPts M a b c 0 [], max 0 (0 + nat (M + 1 - 0)))"
    by (rule addSierpinskiPts_run_eq)
  with assms show ?thesis by (simp add: addSierpinskiPts_stop)
qed

theorem negative_bound_empty_witness:
  "(- 1 :: int) < 0 \<and>
   addSierpinskiPts (- 1) \<lparr>x = Fin (- 0.5), y = Fin (- 0.5), z = Fin 0\<rparr>
     \<lparr>x = Fin 0, y = Fin 0.5, z = Fin 0\<rparr> \<lparr>x = Fin 0.5, y = Fin (- 0.5), z = Fin 0\<rparr> 0 [] = [] \<and>
   addSierpinskiPts_run (- 1) \<lparr>x = Fin (- 0.5), y = Fin (- 0.5), z = Fin 0\<rparr>
     \<lparr>x = Fin 0, y = Fin 0.5, z = Fin 0\<rparr> \<lparr>x = Fin 0.5, y = Fin (- 0.5), z = Fin 0\<rparr> 0 0 ([], 0) =
     Some ([], 0)"
  using negative_bound_empty [of "- 1" "\<lparr>x = Fin (- 0.5), y = Fin (- 0.5), z = Fin 0\<rparr>" "\<lparr>x = Fin 0, y = Fin 0.5, z = Fin 0\<rparr>" "\<lparr>x = Fin 0.5, y = Fin (- 0.5), z = Fin 0\<rparr>"]
  by simp

text \<open>
  C6, as the code has it. For two Points with finite coordinates, \<^const>\<open>midpoint\<close> is the
  componentwise arithmetic mean \<open>((p.x+q.x)/2, (p.y+q.y)/2, (p.z+q.z)/2)\<close>, exactly,
  whenever in each coordinate the sum of the two values and the half of that sum are
  \<^verbatim>\<open>float\<close> values.
\<close>

theorem midpoint_exact_mean:
  assumes "float32 (px + qx)" and "float32 ((px + qx) / 2)"
    and "float32 (py + qy)" and "float32 ((py + qy) / 2)"
    and "float32 (pz + qz)" and "float32 ((pz + qz) / 2)"
  shows "midpoint \<lparr>x = Fin px, y = Fin py, z = Fin pz\<rparr> \<lparr>x = Fin qx, y = Fin qy, z = Fin qz\<rparr> =
           \<lparr>x = Fin ((px + qx) / 2), y = Fin ((py + qy) / 2), z = Fin ((pz + qz) / 2)\<rparr>"
  using assms
  by (simp add: midpoint_def round_float_exact round_double_exact float32_imp_float64)

text \<open>The first midpoint of the root triangle of the program.\<close>

theorem midpoint_exact_mean_witness:
  "float32 (- 0.5 + 0) \<and> float32 ((- 0.5 + 0) / 2) \<and>
   float32 (- 0.5 + 0.5) \<and> float32 ((- 0.5 + 0.5) / 2) \<and>
   float32 (0 + 0) \<and> float32 ((0 + 0) / 2) \<and>
   midpoint \<lparr>x = Fin (- 0.5), y = Fin (- 0.5), z = Fin 0\<rparr> \<lparr>x = Fin 0, y = Fin 0.5, z = Fin 0\<rparr> =
     \<lparr>x = Fin (- 0.25), y = Fin 0, z = Fin 0\<rparr>"
proof -
  have h: "float32 (- 0.5 + 0)" "float32 ((- 0.5 + 0) / 2)"
    "float32 (- 0.5 + 0.5)" "float32 ((- 0.5 + 0.5) / 2)"
    "float32 (0 + 0)" "float32 ((0 + 0) / 2)"
    by (simp_all add: float32_values)
  have "midpoint \<lparr>x = Fin (- 0.5), y = Fin (- 0.5), z = Fin 0\<rparr> \<lparr>x = Fin 0, y = Fin 0.5, z = Fin 0\<rparr> =
     \<lparr>x = Fin (- 0.25), y = Fin 0, z = Fin 0\<rparr>"
    using midpoint_exact_mean [OF h] by simp
  with h show ?thesis by (intro conjI)
qed

text \<open>
  C6 as stated fails. The \<^verbatim>\<open>float\<close> values 1 and \<open>2^-25\<close> have the mean
  \<open>1/2 + 2^-26\<close>, and the code returns \<open>1/2\<close>: the sum is rounded to 1. The greatest
  \<^verbatim>\<open>float\<close>, taken twice, has itself as mean, and the code returns infinity: the sum
  overflows. The least positive \<^verbatim>\<open>float\<close>, \<open>2^-149\<close>, and 0 have the mean \<open>2^-150\<close>,
  and the code returns 0: the half of the sum is rounded.
\<close>

theorem midpoint_exact_mean_counterexample:
  "float32 1 \<and> float32 (1 / 2 ^ 25) \<and>
   x (midpoint \<lparr>x = Fin 1, y = Fin 0, z = Fin 0\<rparr> \<lparr>x = Fin (1 / 2 ^ 25), y = Fin 0, z = Fin 0\<rparr>) =
     Fin (1 / 2) \<and>
   (1 + 1 / 2 ^ 25) / 2 \<noteq> (1 / 2 :: real) \<and>
   float32 340282346638528859811704183484516925440 \<and>
   x (midpoint \<lparr>x = Fin 340282346638528859811704183484516925440, y = Fin 0, z = Fin 0\<rparr>
        \<lparr>x = Fin 340282346638528859811704183484516925440, y = Fin 0, z = Fin 0\<rparr>) = PInf \<and>
   float32 (1 / 2 ^ 149) \<and>
   x (midpoint \<lparr>x = Fin (1 / 2 ^ 149), y = Fin 0, z = Fin 0\<rparr>
        \<lparr>x = Fin 0, y = Fin 0, z = Fin 0\<rparr>) = Fin 0 \<and>
   (1 / 2 ^ 149 + 0) / 2 \<noteq> (0::real)"
proof -
  have f1: "float32 1" by (rule float32_values)
  have f4: "float32 (1 / 2 ^ 149)"
    by (rule float32I [of 1 "- 149"]) (simp_all add: powr_neg_numeral)
  have f5: "float64 (1 / 2 ^ 150)"
    by (rule float64I [of 1 "- 150"]) (simp_all add: powr_neg_numeral)
  have r3: "round_float (1 / 2 ^ 150) = Fin 0"
    unfolding round_float_def
    by (subst round_to_at_even [where k = "- 150" and q = "- 149" and n = 0])
       (simp_all add: powr_neg_numeral round_even_def)
  have m3: "x (midpoint \<lparr>x = Fin (1 / 2 ^ 149), y = Fin 0, z = Fin 0\<rparr>
        \<lparr>x = Fin 0, y = Fin 0, z = Fin 0\<rparr>) = Fin 0"
    using f4 f5 r3 by (simp add: midpoint_def round_float_exact round_double_exact)
  have ne3: "(1 / 2 ^ 149 + 0) / 2 \<noteq> (0::real)" by simp
  have f2: "float32 (1 / 2 ^ 25)"
    by (rule float32I [of 1 "- 25"]) (simp_all add: powr_neg_numeral)
  have f3: "float32 340282346638528859811704183484516925440"
    by (rule float32I [of 16777215 104]) simp_all
  have r1: "round_float (1 + 1 / 2 ^ 25) = Fin 1"
    unfolding round_float_def
    by (subst round_to_at [where k = 0 and q = "- 23" and n = 8388608])
       (simp_all add: powr_neg_numeral)
  have m1: "x (midpoint \<lparr>x = Fin 1, y = Fin 0, z = Fin 0\<rparr>
      \<lparr>x = Fin (1 / 2 ^ 25), y = Fin 0, z = Fin 0\<rparr>) = Fin (1 / 2)"
    unfolding midpoint_def
    by (simp only: point_t.simps float_add.simps r1)
       (simp add: round_float_exact round_double_exact float32_imp_float64 float32_values)
  have r2: "round_float (340282346638528859811704183484516925440 +
      340282346638528859811704183484516925440) = PInf"
    unfolding round_float_def
    by (subst round_to_at [where k = 128 and q = 105 and n = 16777215])
       (simp_all add: powr_neg_numeral)
  have m2: "x (midpoint \<lparr>x = Fin 340282346638528859811704183484516925440, y = Fin 0, z = Fin 0\<rparr>
        \<lparr>x = Fin 340282346638528859811704183484516925440, y = Fin 0, z = Fin 0\<rparr>) = PInf"
    unfolding midpoint_def
    by (simp only: point_t.simps float_add.simps r2) simp
  have ne: "(1 + 1 / 2 ^ 25) / 2 \<noteq> (1 / 2 :: real)" by simp
  show ?thesis by (intro conjI f1 f2 f3 f4 m1 m2 m3 ne ne3)
qed

text \<open>
  C7, as the code has it. For all corner points and every macro value \<open>M < INT_MAX\<close>,
  the recursion returns: \<^const>\<open>addSierpinskiPts_run\<close>, which is not assumed to end, yields
  a result. The depth grows by one with each recursive call and a call with
  \<open>depth > M\<close> makes none. Started at depth 0 with \<open>M \<ge> 0\<close>, at most \<open>M + 2\<close> calls
  of \<^verbatim>\<open>addSierpinskiPts\<close> are active at once, the first one included, and that number is
  reached: the calls at the depths 0 to \<open>M + 1\<close>, the last of which fails the test and
  returns at once.
\<close>

theorem recursion_terminates:
  assumes "M < INT_MAX" and "- INT_MAX - 1 \<le> depth"
  shows "(\<exists>r. addSierpinskiPts_run M a b c depth level s = Some r) \<and>
         (0 \<le> M \<longrightarrow>
            addSierpinskiPts_run M a b c 0 1 (points, 0) =
              Some (addSierpinskiPts M a b c 0 points, nat M + 2))"
proof -
  obtain pts deepest where s: "s = (pts, deepest)" by (cases s)
  have lo: "- INT_MAX - 1 \<le> (0::int)" by (simp add: INT_MAX_def)
  show ?thesis
    unfolding s
    by (auto simp: addSierpinskiPts_run_eq [OF assms] addSierpinskiPts_run_eq [OF assms(1) lo]
        nat_add_distrib)
qed

text \<open>The program: with the macro at 8, ten calls are active at once.\<close>

theorem recursion_terminates_witness:
  "MAX_SIERPINSKI_DEPTH < INT_MAX \<and> - INT_MAX - 1 \<le> (0::int) \<and>
   (0::int) \<le> MAX_SIERPINSKI_DEPTH \<and>
   addSierpinskiPts_run MAX_SIERPINSKI_DEPTH \<lparr>x = Fin (- 0.5), y = Fin (- 0.5), z = Fin 0\<rparr>
     \<lparr>x = Fin 0, y = Fin 0.5, z = Fin 0\<rparr> \<lparr>x = Fin 0.5, y = Fin (- 0.5), z = Fin 0\<rparr> 0 1 ([], 0) =
     Some (initSierpinski [], 10)"
proof -
  have h: "MAX_SIERPINSKI_DEPTH < INT_MAX" "- INT_MAX - 1 \<le> (0::int)"
    "(0::int) \<le> MAX_SIERPINSKI_DEPTH"
    by (simp_all add: INT_MAX_def MAX_SIERPINSKI_DEPTH_def)
  have "addSierpinskiPts_run MAX_SIERPINSKI_DEPTH \<lparr>x = Fin (- 0.5), y = Fin (- 0.5), z = Fin 0\<rparr>
     \<lparr>x = Fin 0, y = Fin 0.5, z = Fin 0\<rparr> \<lparr>x = Fin 0.5, y = Fin (- 0.5), z = Fin 0\<rparr> 0 1 ([], 0) =
     Some (initSierpinski [], 10)"
    using recursion_terminates [OF h(1,2), THEN conjunct2, rule_format, OF h(3),
        of "\<lparr>x = Fin (- 0.5), y = Fin (- 0.5), z = Fin 0\<rparr>" "\<lparr>x = Fin 0, y = Fin 0.5, z = Fin 0\<rparr>" "\<lparr>x = Fin 0.5, y = Fin (- 0.5), z = Fin 0\<rparr>" "[]"]
    by (simp add: MAX_SIERPINSKI_DEPTH_def initSierpinski_def)
  with h show ?thesis by (intro conjI)
qed

text \<open>
  C7 as stated fails twice. At the macro value \<open>2^31 - 1\<close> the recursion does not
  return: the test never fails and \<^verbatim>\<open>depth + 1\<close> overflows. And in the program, with
  the macro at 8, ten calls are nested, not nine.
\<close>

theorem recursion_terminates_counterexample:
  "addSierpinskiPts_run 2147483647 \<lparr>x = Fin (- 0.5), y = Fin (- 0.5), z = Fin 0\<rparr>
     \<lparr>x = Fin 0, y = Fin 0.5, z = Fin 0\<rparr> \<lparr>x = Fin 0.5, y = Fin (- 0.5), z = Fin 0\<rparr> 0 1 ([], 0) = None \<and>
   addSierpinskiPts_run MAX_SIERPINSKI_DEPTH \<lparr>x = Fin (- 0.5), y = Fin (- 0.5), z = Fin 0\<rparr>
     \<lparr>x = Fin 0, y = Fin 0.5, z = Fin 0\<rparr> \<lparr>x = Fin 0.5, y = Fin (- 0.5), z = Fin 0\<rparr> 0 1 ([], 0) =
     Some (initSierpinski [], 10) \<and>
   (10::nat) \<noteq> nat MAX_SIERPINSKI_DEPTH + 1"
proof -
  have over: "addSierpinskiPts_run 2147483647 \<lparr>x = Fin (- 0.5), y = Fin (- 0.5), z = Fin 0\<rparr>
     \<lparr>x = Fin 0, y = Fin 0.5, z = Fin 0\<rparr> \<lparr>x = Fin 0.5, y = Fin (- 0.5), z = Fin 0\<rparr> 0 1 ([], 0) = None"
    by (rule addSierpinskiPts_run_overflow) (simp_all add: INT_MAX_def)
  have h: "(8::int) < INT_MAX" "- INT_MAX - 1 \<le> (0::int)"
    by (simp_all add: INT_MAX_def)
  have "addSierpinskiPts_run 8 \<lparr>x = Fin (- 0.5), y = Fin (- 0.5), z = Fin 0\<rparr>
     \<lparr>x = Fin 0, y = Fin 0.5, z = Fin 0\<rparr> \<lparr>x = Fin 0.5, y = Fin (- 0.5), z = Fin 0\<rparr> 0 1 ([], 0) =
     Some (addSierpinskiPts 8 \<lparr>x = Fin (- 0.5), y = Fin (- 0.5), z = Fin 0\<rparr>
       \<lparr>x = Fin 0, y = Fin 0.5, z = Fin 0\<rparr> \<lparr>x = Fin 0.5, y = Fin (- 0.5), z = Fin 0\<rparr> 0 [],
       max 0 (1 + nat (8 + 1 - 0)))"
    by (rule addSierpinskiPts_run_eq [OF h])
  then have ten: "addSierpinskiPts_run MAX_SIERPINSKI_DEPTH \<lparr>x = Fin (- 0.5), y = Fin (- 0.5), z = Fin 0\<rparr>
     \<lparr>x = Fin 0, y = Fin 0.5, z = Fin 0\<rparr> \<lparr>x = Fin 0.5, y = Fin (- 0.5), z = Fin 0\<rparr> 0 1 ([], 0) =
     Some (initSierpinski [], 10)"
    by (simp add: MAX_SIERPINSKI_DEPTH_def initSierpinski_def)
  have ne: "(10::nat) \<noteq> nat MAX_SIERPINSKI_DEPTH + 1"
    by (simp add: MAX_SIERPINSKI_DEPTH_def)
  show ?thesis by (intro conjI over ten ne)
qed

text \<open>
  C8, as the code has it. The three vertices of a triangle come before the vertices of
  every triangle that the recursive calls made for it emit, and all of those are at a
  strictly greater depth: the trace of a call with \<open>depth \<le> M\<close> starts with its own
  three entries, and every entry after them, up to the end of the call, is deeper.
  Between triangles of different branches the depth does not decide the order.
\<close>

theorem parent_before_descendants:
  assumes "depth \<le> M"
  shows "emitted M a b c depth =
           [(a, depth), (b, depth), (c, depth)] @
           emitted M a (midpoint a b) (midpoint a c) (depth + 1) @
           emitted M b (midpoint a b) (midpoint b c) (depth + 1) @
           emitted M c (midpoint a c) (midpoint b c) (depth + 1) \<and>
         (\<forall>e \<in> set (emitted M a (midpoint a b) (midpoint a c) (depth + 1) @
                    emitted M b (midpoint a b) (midpoint b c) (depth + 1) @
                    emitted M c (midpoint a c) (midpoint b c) (depth + 1)).
            depth < snd e)"
proof (intro conjI ballI)
  show "emitted M a b c depth =
           [(a, depth), (b, depth), (c, depth)] @
           emitted M a (midpoint a b) (midpoint a c) (depth + 1) @
           emitted M b (midpoint a b) (midpoint b c) (depth + 1) @
           emitted M c (midpoint a c) (midpoint b c) (depth + 1)"
    by (rule emitted_unfold [OF assms])
next
  fix e
  assume "e \<in> set (emitted M a (midpoint a b) (midpoint a c) (depth + 1) @
                    emitted M b (midpoint a b) (midpoint b c) (depth + 1) @
                    emitted M c (midpoint a c) (midpoint b c) (depth + 1))"
  then have "depth + 1 \<le> snd e"
    by (auto dest: emitted_depth_range)
  then show "depth < snd e" by simp
qed

theorem parent_before_descendants_witness:
  "(0::int) \<le> 1 \<and>
   emitted 1 \<lparr>x = Fin (- 0.5), y = Fin (- 0.5), z = Fin 0\<rparr>
     \<lparr>x = Fin 0, y = Fin 0.5, z = Fin 0\<rparr> \<lparr>x = Fin 0.5, y = Fin (- 0.5), z = Fin 0\<rparr> 0 =
   [(\<lparr>x = Fin (- 0.5), y = Fin (- 0.5), z = Fin 0\<rparr>, 0), (\<lparr>x = Fin 0, y = Fin 0.5, z = Fin 0\<rparr>, 0),
    (\<lparr>x = Fin 0.5, y = Fin (- 0.5), z = Fin 0\<rparr>, 0),
    (\<lparr>x = Fin (- 0.5), y = Fin (- 0.5), z = Fin 0\<rparr>, 1), (\<lparr>x = Fin (- 0.25), y = Fin 0, z = Fin 0\<rparr>, 1),
    (\<lparr>x = Fin 0, y = Fin (- 0.5), z = Fin 0\<rparr>, 1),
    (\<lparr>x = Fin 0, y = Fin 0.5, z = Fin 0\<rparr>, 1), (\<lparr>x = Fin (- 0.25), y = Fin 0, z = Fin 0\<rparr>, 1),
    (\<lparr>x = Fin 0.25, y = Fin 0, z = Fin 0\<rparr>, 1),
    (\<lparr>x = Fin 0.5, y = Fin (- 0.5), z = Fin 0\<rparr>, 1), (\<lparr>x = Fin 0, y = Fin (- 0.5), z = Fin 0\<rparr>, 1),
    (\<lparr>x = Fin 0.25, y = Fin 0, z = Fin 0\<rparr>, 1)] \<and>
   (0::int) < snd (emitted 1 \<lparr>x = Fin (- 0.5), y = Fin (- 0.5), z = Fin 0\<rparr>
     \<lparr>x = Fin 0, y = Fin 0.5, z = Fin 0\<rparr> \<lparr>x = Fin 0.5, y = Fin (- 0.5), z = Fin 0\<rparr> 0 ! 3)"
proof -
  have leaf: "emitted 1 p q r (0 + 1) = [(p, 1), (q, 1), (r, 1)]" for p q r
  proof -
    have "emitted 1 p q r 1 = [(p, 1), (q, 1), (r, 1)] @
        emitted 1 p (midpoint p q) (midpoint p r) (1 + 1) @
        emitted 1 q (midpoint p q) (midpoint q r) (1 + 1) @
        emitted 1 r (midpoint p r) (midpoint q r) (1 + 1)"
      by (rule emitted_unfold) simp
    moreover have "emitted 1 u v w (1 + 1) = []" for u v w
      by (subst emitted.simps) simp
    ultimately show ?thesis by simp
  qed
  have le: "(0::int) \<le> 1" by simp
  show ?thesis
    using parent_before_descendants [OF le, of "\<lparr>x = Fin (- 0.5), y = Fin (- 0.5), z = Fin 0\<rparr>" "\<lparr>x = Fin 0, y = Fin 0.5, z = Fin 0\<rparr>" "\<lparr>x = Fin 0.5, y = Fin (- 0.5), z = Fin 0\<rparr>", THEN conjunct1]
    unfolding root_midpoints leaf by simp
qed

text \<open>
  C8 as stated fails for the program itself (macro at 8, the root triangle of
  \<^verbatim>\<open>initSierpinski\<close>): entry 6 of the trace is at depth 2, entry 9843, the first vertex of
  the second depth-1 triangle, comes after it.
\<close>

theorem depth_order_counterexample:
  "\<not> shallower_first (emitted MAX_SIERPINSKI_DEPTH
       \<lparr>x = Fin (- 0.5), y = Fin (- 0.5), z = Fin 0\<rparr>
       \<lparr>x = Fin 0, y = Fin 0.5, z = Fin 0\<rparr> \<lparr>x = Fin 0.5, y = Fin (- 0.5), z = Fin 0\<rparr> 0)"
proof
  let ?a = "\<lparr>x = Fin (- 0.5), y = Fin (- 0.5), z = Fin 0\<rparr>"
  let ?b = "\<lparr>x = Fin 0, y = Fin 0.5, z = Fin 0\<rparr>"
  let ?c = "\<lparr>x = Fin 0.5, y = Fin (- 0.5), z = Fin 0\<rparr>"
  let ?es = "emitted 8 ?a ?b ?c 0"
  assume "shallower_first (emitted MAX_SIERPINSKI_DEPTH ?a ?b ?c 0)"
  then have sf: "shallower_first ?es" by (simp add: MAX_SIERPINSKI_DEPTH_def)
  have len: "length ?es = 29523" by (simp add: length_emitted)
  have "length (emitted 8 ?a (midpoint ?a ?b) (midpoint ?a ?c) (0 + 1)) = 9840"
    by (simp add: length_emitted)
  with emitted_nth_second_child [of 0 8 ?a ?b ?c]
  have late: "?es ! 9843 = (?b, 1)" by simp
  have early: "?es ! 6 = (?a, 2)"
    using emitted_nth_first_grandchild [of 0 8 ?a ?b ?c] by simp
  from sf have "i < length ?es \<Longrightarrow> j < length ?es \<Longrightarrow>
      snd (?es ! i) < snd (?es ! j) \<Longrightarrow> i < j" for i j
    unfolding shallower_first_def by blast
  from this [of 9843 6] have "(9843::nat) < 6"
    unfolding len late early by simp
  then show False by simp
qed

text \<open>
  C9, as the code has it. With the macro at its value 8, \<^verbatim>\<open>initSierpinski\<close> fills the
  empty vector with exactly 177,138 floats, that is 29,523 vertex records of six floats
  (three for each of the \<open>(3^9 - 1) / 2 = 9841\<close> triangles).
\<close>

theorem reference_bound_counts:
  "length (initSierpinski []) = 177138 \<and> length (initSierpinski []) = 6 * 29523 \<and>
   length (emitted MAX_SIERPINSKI_DEPTH \<lparr>x = Fin (- 0.5), y = Fin (- 0.5), z = Fin 0\<rparr>
     \<lparr>x = Fin 0, y = Fin 0.5, z = Fin 0\<rparr> \<lparr>x = Fin 0.5, y = Fin (- 0.5), z = Fin 0\<rparr> 0) = 29523"
  by (simp add: initSierpinski_def MAX_SIERPINSKI_DEPTH_def length_addSierpinskiPts
      length_emitted)

text \<open>C9 as stated fails: the vector does not hold 59,022 floats, 9,837 records.\<close>

theorem reference_bound_counterexample:
  "length (initSierpinski []) \<noteq> 59022 \<and> length (initSierpinski []) \<noteq> 6 * 9837"
  by (simp add: initSierpinski_def MAX_SIERPINSKI_DEPTH_def length_addSierpinskiPts)

text \<open>
  C10. \<^const>\<open>addPosAndColor\<close> and \<^const>\<open>addSierpinskiPts\<close> only append: whatever the
  vector holds before the call is, unchanged, the prefix of the vector after it.
  \<^const>\<open>addPosAndColor\<close> appends exactly 6 floats, \<^const>\<open>addSierpinskiPts\<close> a multiple
  of 6, so that a vector filled from empty has a length that is a multiple of 6.
\<close>

theorem append_only:
  "take (length points) (addPosAndColor M p depth points) = points \<and>
   length (addPosAndColor M p depth points) = length points + 6 \<and>
   take (length points) (addSierpinskiPts M a b c depth points) = points \<and>
   length points \<le> length (addSierpinskiPts M a b c depth points) \<and>
   6 dvd (length (addSierpinskiPts M a b c depth points) - length points) \<and>
   6 dvd length (addSierpinskiPts M a b c depth [])"
proof -
  have 1: "take (length points) (addPosAndColor M p depth points) = points"
    by (subst addPosAndColor_append) simp
  have 2: "take (length points) (addSierpinskiPts M a b c depth points) = points"
    by (subst addSierpinskiPts_append) simp
  have "even (3 ^ nat (M + 1 - depth) - (1::nat))" by simp
  then have 3: "6 dvd 9 * (3 ^ nat (M + 1 - depth) - (1::nat))"
    by (elim evenE) simp
  show ?thesis using 1 2 3 by (simp add: length_addPosAndColor length_addSierpinskiPts)
qed

end
